theory Spec2Isabelle
  imports Main
begin

section \<open>JavaScript values used by the bot\<close>

text \<open>
  The bot is a Node.js program. Its handlers are modelled as functions from the state
  they read (the two module-level maps, the order sheet, the list of send requests) and
  from the answers of its collaborators (the spreadsheet service, the clock) to the new
  state. Text is modelled over HOL's 8-bit characters read as the code points 0..255
  (Latin-1), which covers every literal the control flow compares against
  (the commands, \<open>TRUE\<close>, digits, commas, white space).
  The emoji-laden reply templates are modelled as constructors of a message datatype
  whose arguments are the values the template interpolates, in the order of the text.
\<close>

datatype error = TypeError

text \<open>The result of a call to an external service: it throws, or it returns a value.\<close>

datatype 'a outcome = Threw | Returned 'a

text \<open>JavaScript truthiness of a value that is \<open>undefined\<close> or a string.\<close>

fun truthy :: "string option \<Rightarrow> bool" where
  "truthy None = False"
| "truthy (Some s) = (s \<noteq> [])"

text \<open>\<open>v || d\<close> for such a value.\<close>

definition orElse :: "string option \<Rightarrow> string \<Rightarrow> string" where
  "orElse v d = (if truthy v then the v else d)"

text \<open>A method call \<open>v.m()\<close> raises a TypeError when \<open>v\<close> is \<open>undefined\<close>.\<close>

fun callOn :: "'a option \<Rightarrow> ('a \<Rightarrow> 'b) \<Rightarrow> error + 'b" where
  "callOn None m = Inl TypeError"
| "callOn (Some v) m = Inr (m v)"

text \<open>Array indexing \<open>row[i]\<close>: \<open>undefined\<close> out of range.\<close>

definition cell :: "'a list \<Rightarrow> nat \<Rightarrow> 'a option" where
  "cell row i = (if i < length row then Some (row ! i) else None)"

subsection \<open>Strings\<close>

definition isSpace :: "char \<Rightarrow> bool" where
  "isSpace c = (c \<in> set [CHR 0x20, CHR 0x09, CHR 0x0A, CHR 0x0B, CHR 0x0C, CHR 0x0D, CHR 0xA0])"

definition isDigit :: "char \<Rightarrow> bool" where
  "isDigit c = (c \<in> set ''0123456789'')"

definition toLowerChar :: "char \<Rightarrow> char" where
  "toLowerChar c =
     (let n = (of_char c :: nat) in
      if (65 \<le> n \<and> n \<le> 90) \<or> (192 \<le> n \<and> n \<le> 222 \<and> n \<noteq> 215)
      then char_of (n + 32) else c)"

definition toLowerCase :: "string \<Rightarrow> string" where
  "toLowerCase s = map toLowerChar s"

definition trim :: "string \<Rightarrow> string" where
  "trim s = rev (dropWhile isSpace (rev (dropWhile isSpace s)))"

definition startsWith :: "string \<Rightarrow> string \<Rightarrow> bool" where
  "startsWith s p = (take (length p) s = p)"

text \<open>\<open>s.slice(-6)\<close>: the last six characters, the whole string when it is shorter.\<close>

definition sliceLast6 :: "string \<Rightarrow> string" where
  "sliceLast6 s = drop (length s - 6) s"

text \<open>\<open>n.toString()\<close> for a non-negative integer: its decimal digits.\<close>

fun digitChar :: "nat \<Rightarrow> char" where
  "digitChar n = (''0123456789'' ! (n mod 10))"

function natToString :: "nat \<Rightarrow> string" where
  "natToString n = (if n < 10 then [digitChar n] else natToString (n div 10) @ [digitChar n])"
  by pat_completeness auto
termination
  by (relation "measure id") auto

declare natToString.simps [simp del]

subsection \<open>Numbers and parseInt\<close>

text \<open>
  The numbers \<open>parseInt\<close> returns: NaN, an integer that is a double, or an infinity
  (minus zero is the integer 0: it equals 0 and prints as 0).
\<close>

datatype number = NaN | Finite int | PlusInfinity | MinusInfinity

text \<open>\<open>a === b\<close> on numbers: NaN equals nothing.\<close>

definition strictEquals :: "number \<Rightarrow> number \<Rightarrow> bool" where
  "strictEquals a b = (a \<noteq> NaN \<and> b \<noteq> NaN \<and> a = b)"

text \<open>The number of binary digits of a positive integer.\<close>

function bitLength :: "int \<Rightarrow> nat" where
  "bitLength n = (if n \<le> 0 then 0 else Suc (bitLength (n div 2)))"
  by pat_completeness auto
termination
  by (relation "measure nat") auto

declare bitLength.simps [simp del]

text \<open>
  The double nearest to a non-negative integer, ties to the even significand: the
  integer itself below \<open>2^53\<close> (9007199254740992); above, the integer rounded to 53
  significant binary digits; \<open>None\<close>, for infinity, when the rounded value reaches
  \<open>2^1024\<close>.
\<close>

definition roundToDouble :: "int \<Rightarrow> int option" where
  "roundToDouble n =
     (if n < 9007199254740992 then Some n
      else
        (let e = bitLength n - 53;
             q = n div 2 ^ e;
             r = n mod 2 ^ e;
             half = 2 ^ (e - 1);
             q' = (if half < r \<or> (r = half \<and> q mod 2 = 1) then q + 1 else q)
         in if 1024 < bitLength q' + e then None else Some (q' * 2 ^ e)))"

text \<open>
  \<open>parseInt(s)\<close> with no radix: leading white space is skipped, a sign is read, a
  \<open>0x\<close> prefix selects base 16, and the longest prefix of digits is read; with no
  digit the result is NaN, otherwise it is the double nearest to the integer the digits
  denote, as the engine of Node.js computes it, with the sign.
\<close>

definition hexVal :: "char \<Rightarrow> nat option" where
  "hexVal c =
     (let n = (of_char c :: nat) in
      if 48 \<le> n \<and> n \<le> 57 then Some (n - 48)
      else if 97 \<le> n \<and> n \<le> 102 then Some (n - 87)
      else if 65 \<le> n \<and> n \<le> 70 then Some (n - 55)
      else None)"

definition digitVal :: "nat \<Rightarrow> char \<Rightarrow> nat option" where
  "digitVal radix c = (case hexVal c of None \<Rightarrow> None | Some v \<Rightarrow> if v < radix then Some v else None)"

definition digitsValue :: "nat \<Rightarrow> string \<Rightarrow> int" where
  "digitsValue radix z = foldl (\<lambda>acc c. acc * int radix + int (the (digitVal radix c))) 0 z"

definition parseInt :: "string \<Rightarrow> number" where
  "parseInt str =
     (let s = dropWhile isSpace str;
          neg = (s \<noteq> [] \<and> hd s = CHR ''-'');
          s1 = (if s \<noteq> [] \<and> (hd s = CHR ''-'' \<or> hd s = CHR ''+'') then tl s else s);
          hex = (take 2 s1 = ''0x'' \<or> take 2 s1 = ''0X'');
          radix = (if hex then 16 else 10);
          s2 = (if hex then drop 2 s1 else s1);
          z = takeWhile (\<lambda>c. digitVal radix c \<noteq> None) s2
      in if z = [] then NaN
         else (case roundToDouble (digitsValue radix z) of
                 None \<Rightarrow> if neg then MinusInfinity else PlusInfinity
               | Some v \<Rightarrow> Finite (if neg then - v else v)))"

text \<open>\<open>parseInt(v)\<close> of a value that may be \<open>undefined\<close>: the string \<open>undefined\<close> is read.\<close>

definition parseIntVal :: "string option \<Rightarrow> number" where
  "parseIntVal v = parseInt (case v of None \<Rightarrow> ''undefined'' | Some s \<Rightarrow> s)"

section \<open>Catalog\<close>

text \<open>
  Prices are IEEE doubles in the source (\<open>parseFloat\<close>, \<open>*\<close>, \<open>+\<close>). Their type is a
  parameter \<open>'p\<close> here and the four operations the program applies to them are passed
  in a record, so every result below holds for any arithmetic, the floating-point one
  included. Quantities are counters: they start at 1 and grow by 1, in the arithmetic of
  doubles, see \<open>increment\<close> below; they are natural numbers here.
\<close>

record 'p numops =
  parseFloat :: "string option \<Rightarrow> 'p"
  times :: "'p \<Rightarrow> nat \<Rightarrow> 'p"
  plus :: "'p \<Rightarrow> 'p \<Rightarrow> 'p"
  zero :: "'p"

record 'p product =
  prod_id :: "string option"
  name :: "string option"
  description :: string
  price :: "'p"
  category :: "string option"
  available :: bool

definition toProduct :: "'p numops \<Rightarrow> string list \<Rightarrow> 'p product" where
  "toProduct A row =
     \<lparr> prod_id = cell row 0,
       name = cell row 1,
       description = orElse (cell row 2) [],
       price = parseFloat A (cell row 3),
       category = cell row 4,
       available = (cell row 5 = Some ''TRUE'') \<rparr>"

text \<open>
  \<open>getMenu\<close>: the argument is what \<open>sheets.spreadsheets.values.get\<close> on \<open>Menu!A:F\<close>
  does in this call: it throws, or it returns \<open>response.data.values\<close>, which is
  \<open>undefined\<close> (\<open>None\<close>) for an empty range. The callers record the call in
  \<open>sheetCalls\<close>.
\<close>

definition getMenu :: "'p numops \<Rightarrow> string list list option outcome \<Rightarrow> 'p product list" where
  "getMenu A response =
     (case response of
        Threw \<Rightarrow> []
      | Returned None \<Rightarrow> []
      | Returned (Some []) \<Rightarrow> []
      | Returned (Some (headers # data)) \<Rightarrow> filter available (map (toProduct A) data))"

section \<open>Cart and message formatting\<close>

text \<open>A cart line is \<open>{...product, quantity}\<close>: the product's fields and a quantity.\<close>

record 'p cart_line = "'p product" +
  quantity :: nat

definition newLine :: "'p product \<Rightarrow> 'p cart_line" where
  "newLine p =
     \<lparr> prod_id = prod_id p, name = name p, description = description p, price = price p,
       category = category p, available = available p, quantity = 1 \<rparr>"

text \<open>
  \<open>cart.reduce((sum, item) => sum + (item.price * item.quantity), 0)\<close>, and the
  running total of \<open>formatCart\<close>, which is the same fold.
\<close>

definition cartTotal :: "'p numops \<Rightarrow> 'p cart_line list \<Rightarrow> 'p" where
  "cartTotal A cart = foldl (\<lambda>sum item. plus A sum (times A (price item) (quantity item))) (zero A) cart"

text \<open>
  \<open>formatCart(cart, showOptions)\<close>. The text has: the notice of an empty cart, or one
  numbered entry per line (index + 1, name, quantity, price, subtotal); the total; and,
  when \<open>showOptions\<close>, the option list, with the \<open>finalizar\<close> and \<open>limpiar\<close> entries
  only for a non-empty cart.
\<close>

record 'p cart_text =
  emptyNotice :: bool
  entries :: "(nat \<times> string option \<times> nat \<times> 'p \<times> 'p) list"
  total :: "'p"
  options :: "bool option"

definition formatCart :: "'p numops \<Rightarrow> 'p cart_line list \<Rightarrow> bool \<Rightarrow> 'p cart_text" where
  "formatCart A cart showOptions =
     \<lparr> emptyNotice = (cart = []),
       entries = map (\<lambda>(index, item).
                   (index + 1, name item, quantity item, price item,
                    times A (price item) (quantity item)))
                 (zip [0 ..< length cart] cart),
       total = cartTotal A cart,
       options = (if showOptions then Some (length cart > 0) else None) \<rparr>"

text \<open>
  \<open>formatMenuWithButtons(menu)\<close>: the categories in order of first appearance
  (\<open>[...new Set(...)]\<close>), each with its products in catalog order.
\<close>

fun firstOccurrences :: "'a list \<Rightarrow> 'a list \<Rightarrow> 'a list" where
  "firstOccurrences seen [] = []"
| "firstOccurrences seen (x # xs) =
     (if x \<in> set seen then firstOccurrences seen xs else x # firstOccurrences (x # seen) xs)"

definition formatMenuWithButtons ::
  "'p product list \<Rightarrow> (string option \<times> 'p product list) list" where
  "formatMenuWithButtons menu =
     map (\<lambda>c. (c, filter (\<lambda>item. category item = c) menu))
       (firstOccurrences [] (map category menu))"

text \<open>
  \<open>generateMercadoPagoLink(total, orderId, customerName)\<close>: the link carries the amount
  and \<open>Pedido-\<close> followed by the last six characters of the order id.
\<close>

record 'p mp_link =
  amount :: "'p"
  concept :: string

definition generateMercadoPagoLink :: "'p \<Rightarrow> string \<Rightarrow> string \<Rightarrow> 'p mp_link" where
  "generateMercadoPagoLink tot orderId customerName =
     \<lparr> amount = tot, concept = sliceLast6 orderId \<rparr>"

text \<open>The confirmation text of \<open>processOrder\<close>.\<close>

record 'p confirmation =
  orderNumber :: string
  itemLines :: "(string option \<times> nat \<times> 'p) list"
  confirmedTotal :: "'p"
  paidWith :: string
  deliveryTo :: "string option"
  transferConcept :: "string option"

datatype 'p msg =
    ReceiptReceived
  | MenuAndCart "(string option \<times> 'p product list) list" "'p cart_text"
  | CartView "'p cart_text"
  | CartEmptied "'p cart_text"
  | OrderCancelled
  | NothingToCancel
  | CartIsEmpty
  | OrderSummary "'p cart_text"
  | AskAddress
  | PaymentPromptPickup "'p cart_text"
  | InvalidDeliveryOption
  | PaymentPromptDelivery "'p cart_text" string
  | PayWithMercadoPago "'p cart_text" "'p" "'p mp_link" string
  | InvalidPaymentOption
  | ProductsReply "string option list" "number list" "'p cart_text"
  | Welcome string
  | OrderConfirmed "'p confirmation"
  | StatusNotification string

section \<open>State\<close>

datatype state =
    MAIN_MENU | BROWSING_PRODUCTS | CART_REVIEW | DELIVERY_INFO
  | PAYMENT_METHOD | PAYMENT_CONFIRMATION | CONFIRMING_ORDER

text \<open>A cell of the order sheet: a text, the serialized item list, or a number.\<close>

datatype 'p sheet_cell = Str string | Items "'p cart_line list" | Num "'p"

text \<open>
  A call of \<open>sheets.spreadsheets.values\<close>, with its range: \<open>get\<close>, \<open>append\<close> or
  \<open>update\<close>.
\<close>

datatype sheets_call = ValuesGet string | ValuesAppend string | ValuesUpdate string

text \<open>
  The state the handlers read and write. \<open>userCarts\<close> of the source holds three kinds
  of entries: the cart under the sender's address, and the pending delivery type and
  address under that address followed by \<open>_delivery\<close> and \<open>_address\<close>. They are three
  maps here, keyed by the sender's address; this is the source's map as long as no
  sender address ends in one of the two suffixes (the channel's addresses are
  \<open>whatsapp:+\<close> and digits). \<open>pedidos\<close> is the sheet \<open>Pedidos\<close>, header row first.
  \<open>outbox\<close> lists the texts the handlers hand to \<open>sendMessage\<close> and
  \<open>sendInteractiveMessage\<close>, in order, each with its address. Whether the channel
  delivers them is outside the program: the source logs a failed send and goes on
  (\<open>sendInteractiveMessage\<close> after one more attempt through \<open>sendMessage\<close>).
  \<open>sheetCalls\<close> lists the calls made to the spreadsheet service in order, whether
  they succeed or throw; the program does not read it.
\<close>

record 'p world =
  userCarts :: "string \<rightharpoonup> 'p cart_line list"
  userCarts_delivery :: "string \<rightharpoonup> string"
  userCarts_address :: "string \<rightharpoonup> string"
  userStates :: "string \<rightharpoonup> state"
  pedidos :: "'p sheet_cell list list"
  outbox :: "(string \<times> 'p msg) list"
  sheetCalls :: "sheets_call list"

text \<open>
  What the collaborators do during one request: the answer of the catalog read, whether
  the calls on the order sheet throw, and the readings of the clock
  (\<open>new Date().toISOString()\<close> in \<open>saveOrder\<close>, \<open>Date.now()\<close> in the webhook and in
  \<open>processOrder\<close>, in milliseconds). A reading of \<open>Date.now()\<close> is an integer below
  \<open>2^53\<close>, which \<open>toString\<close> prints as its decimal digits.
\<close>

record env =
  menuResponse :: "string list list option outcome"
  appendThrows :: bool
  ordersGetThrows :: bool
  updateThrows :: bool
  isoNow :: string
  nowWebhook :: nat
  nowProcessOrder :: nat

definition called :: "sheets_call \<Rightarrow> 'p world \<Rightarrow> 'p world" where
  "called c w = w\<lparr>sheetCalls := sheetCalls w @ [c]\<rparr>"

definition sendMessage :: "string \<Rightarrow> 'p msg \<Rightarrow> 'p world \<Rightarrow> 'p world" where
  "sendMessage to body w = w\<lparr>outbox := outbox w @ [(to, body)]\<rparr>"

text \<open>
  \<open>sendInteractiveMessage(to, body, options)\<close>: its three branches make the same call,
  so the options do not appear.
\<close>

definition sendInteractiveMessage :: "string \<Rightarrow> 'p msg \<Rightarrow> 'p world \<Rightarrow> 'p world" where
  "sendInteractiveMessage to body w = w\<lparr>outbox := outbox w @ [(to, body)]\<rparr>"

section \<open>Order gateway\<close>

record 'p order_data =
  customerPhone :: string
  customerName :: string
  items :: "'p cart_line list"
  orderTotal :: "'p"
  deliveryType :: string
  address :: string
  paymentMethod :: string
  paymentStatus :: string
  orderId :: string

text \<open>
  \<open>saveOrder\<close> appends one row of ten values (columns A to J of \<open>Pedidos\<close>); when the
  append throws, the error is logged and nothing is written.
\<close>

definition orderRow :: "env \<Rightarrow> 'p order_data \<Rightarrow> 'p sheet_cell list" where
  "orderRow E orderData =
     [ Str (isoNow E),
       Str (customerPhone orderData),
       Str (customerName orderData),
       Items (items orderData),
       Num (orderTotal orderData),
       Str (deliveryType orderData),
       Str (orElse (Some (address orderData)) []),
       Str (orElse (Some (paymentMethod orderData)) ''Efectivo''),
       Str (orElse (Some (paymentStatus orderData)) ''Pendiente''),
       Str ''NUEVO'' ]"

definition saveOrder :: "env \<Rightarrow> 'p order_data \<Rightarrow> 'p world \<Rightarrow> 'p world" where
  "saveOrder E orderData w =
     (let w1 = called (ValuesAppend ''Pedidos!A:K'') w
      in if appendThrows E then w1 else w1\<lparr>pedidos := pedidos w1 @ [orderRow E orderData]\<rparr>)"

text \<open>
  The loop \<open>for (let i = rows.length - 1; i >= 1; i--)\<close> of \<open>updateOrderStatus\<close>:
  the index of the first row, from the last one down to row 1, whose second cell is the
  phone. Reading a row that does not exist would throw, which the caller's \<open>catch\<close>
  turns into \<open>false\<close>; the index stays in range, so that branch is never taken.
\<close>

fun findLatest :: "'p sheet_cell list list \<Rightarrow> string \<Rightarrow> nat \<Rightarrow> nat option" where
  "findLatest rows phone 0 = None"
| "findLatest rows phone (Suc k) =
     (case cell rows (Suc k) of
        None \<Rightarrow> None
      | Some row \<Rightarrow> if cell row 1 = Some (Str phone) then Some (Suc k) else findLatest rows phone k)"

text \<open>
  Writing one value at a column of a sheet row: the cell is replaced, and a shorter row
  grows with blank cells up to that column.
\<close>

definition setCell :: "'p sheet_cell list \<Rightarrow> nat \<Rightarrow> 'p sheet_cell \<Rightarrow> 'p sheet_cell list" where
  "setCell row j v =
     (if j < length row then row[j := v]
      else row @ replicate (j - length row) (Str []) @ [v])"

text \<open>
  What the service does with \<open>values.update\<close> on a range of one cell: a column letter
  and a row number, as in \<open>K7\<close>. Column \<open>A\<close> is index 0 and row 1 is index 0; a row
  number with no row leaves the rows as they are.
\<close>

definition columnIndex :: "char \<Rightarrow> nat" where
  "columnIndex c = (of_char c :: nat) - 65"

definition updateCell ::
  "char \<Rightarrow> nat \<Rightarrow> 'p sheet_cell \<Rightarrow> 'p sheet_cell list list \<Rightarrow> 'p sheet_cell list list" where
  "updateCell column rowNumber v rows =
     (case cell rows (rowNumber - 1) of
        None \<Rightarrow> rows
      | Some row \<Rightarrow> rows[rowNumber - 1 := setCell row (columnIndex column) v])"

text \<open>
  \<open>updateOrderStatus(phone, newStatus)\<close>: the range written is
  \<open>`Pedidos!K${i + 1}`\<close>.
\<close>

definition updateOrderStatus :: "env \<Rightarrow> string \<Rightarrow> string \<Rightarrow> 'p world \<Rightarrow> bool \<times> 'p world" where
  "updateOrderStatus E phone newStatus w =
     (let w1 = called (ValuesGet ''Pedidos!A:K'') w
      in if ordersGetThrows E then (False, w1)
      else let rows = pedidos w1 in
        if length rows \<le> 1 then (False, w1)
        else (case findLatest rows phone (length rows - 1) of
                None \<Rightarrow> (False, w1)
              | Some i \<Rightarrow>
                  (let w2 = called (ValuesUpdate (''Pedidos!K'' @ natToString (i + 1))) w1
                   in if updateThrows E then (False, w2)
                      else (True, w2\<lparr>pedidos := updateCell (CHR ''K'') (i + 1) (Str newStatus) rows\<rparr>))))"

section \<open>Order finalization\<close>

definition confirmMessage ::
  "'p numops \<Rightarrow> string \<Rightarrow> 'p cart_line list \<Rightarrow> string \<Rightarrow> string \<Rightarrow> string \<Rightarrow> 'p confirmation" where
  "confirmMessage A oid cart dType addr pMethod =
     \<lparr> orderNumber = sliceLast6 oid,
       itemLines = map (\<lambda>item. (name item, quantity item, times A (price item) (quantity item))) cart,
       confirmedTotal = cartTotal A cart,
       paidWith = (if pMethod = ''efectivo'' then ''Efectivo'' else ''MercadoPago''),
       deliveryTo = (if dType = ''delivery'' then Some addr else None),
       transferConcept = (if pMethod = ''mercadopago'' then Some (sliceLast6 oid) else None) \<rparr>"

text \<open>\<open>processOrder\<close> returns the order id and the new state.\<close>

definition processOrder ::
  "'p numops \<Rightarrow> env \<Rightarrow> string \<Rightarrow> string \<Rightarrow> 'p cart_line list \<Rightarrow> string \<Rightarrow> string \<Rightarrow> string
     \<Rightarrow> 'p world \<Rightarrow> string \<times> 'p world" where
  "processOrder A E phone cName cart dType addr pMethod w =
     (let tot = cartTotal A cart;
          oid = natToString (nowProcessOrder E);
          orderData = \<lparr> customerPhone = phone, customerName = cName, items = cart,
                        orderTotal = tot, deliveryType = dType, address = addr,
                        paymentMethod = pMethod,
                        paymentStatus = (if pMethod = ''efectivo'' then ''Confirmado'' else ''Pendiente''),
                        orderId = oid \<rparr>;
          w1 = saveOrder E orderData w;
          w2 = w1\<lparr>userCarts := (userCarts w1)(phone \<mapsto> [])\<rparr>;
          w3 = w2\<lparr>userStates := (userStates w2)(phone \<mapsto> MAIN_MENU)\<rparr>;
          w4 = sendMessage phone (OrderConfirmed (confirmMessage A oid cart dType addr pMethod)) w3
      in (oid, w4))"

section \<open>Product selection\<close>

definition isSeparator :: "char \<Rightarrow> bool" where
  "isSeparator c = (c = CHR '','' \<or> isSpace c)"

text \<open>The test \<open>/^[\d,\s]+$/\<close>.\<close>

definition selectionPattern :: "string \<Rightarrow> bool" where
  "selectionPattern message = (message \<noteq> [] \<and> list_all (\<lambda>c. isDigit c \<or> isSeparator c) message)"

text \<open>
  \<open>message.split(/[,\s]+/)\<close>: the pieces between maximal runs of separators; a
  separator at either end gives an empty piece there. \<open>cur\<close> is the current piece,
  reversed.
\<close>

fun splitPieces :: "string \<Rightarrow> string \<Rightarrow> string list" where
  "splitPieces cur [] = [rev cur]"
| "splitPieces cur (c # cs) =
     (if isSeparator c then
        (case cs of
           [] \<Rightarrow> [rev cur, []]
         | d # ds \<Rightarrow> if isSeparator d then splitPieces cur cs else rev cur # splitPieces [] cs)
      else splitPieces (c # cur) cs)"

definition split :: "string \<Rightarrow> string list" where
  "split message = splitPieces [] message"

text \<open>\<open>.map(id => parseInt(id.trim())).filter(id => !isNaN(id))\<close>\<close>

definition productIds :: "string \<Rightarrow> number list" where
  "productIds message = filter (\<lambda>v. v \<noteq> NaN) (map (\<lambda>i. parseInt (trim i)) (split message))"

text \<open>
  \<open>quantity + 1\<close> in the arithmetic of doubles: the double nearest to the sum, which is
  the sum itself below \<open>2^53\<close>. The sum of a double and 1 is never infinite, so the
  first case is not taken for a quantity the program has computed.
\<close>

definition increment :: "nat \<Rightarrow> nat" where
  "increment q = (case roundToDouble (int q + 1) of None \<Rightarrow> q | Some v \<Rightarrow> nat v)"

text \<open>\<open>existingItem.quantity += 1\<close> on the first line with the id.\<close>

fun incrementFirst :: "string option \<Rightarrow> 'p cart_line list \<Rightarrow> 'p cart_line list" where
  "incrementFirst i [] = []"
| "incrementFirst i (l # ls) =
     (if prod_id l = i then l\<lparr>quantity := increment (quantity l)\<rparr> # ls
      else l # incrementFirst i ls)"

record 'p selection =
  sel_cart :: "'p cart_line list"
  addedProducts :: "string option list"
  notFoundProducts :: "number list"

text \<open>
  The body of \<open>productIds.forEach\<close>. The reply lists \<open>productId.toString()\<close> for
  each number not found; the list of these numbers is kept.
\<close>

definition selectProduct :: "'p product list \<Rightarrow> 'p selection \<Rightarrow> number \<Rightarrow> 'p selection" where
  "selectProduct menu s productId =
     (case find (\<lambda>item. strictEquals (parseIntVal (prod_id item)) productId) menu of
        Some product \<Rightarrow>
          (case find (\<lambda>item. prod_id item = prod_id product) (sel_cart s) of
             Some existingItem \<Rightarrow>
               s\<lparr>sel_cart := incrementFirst (prod_id product) (sel_cart s),
                 addedProducts := addedProducts s @ [name product]\<rparr>
           | None \<Rightarrow>
               s\<lparr>sel_cart := sel_cart s @ [newLine product],
                 addedProducts := addedProducts s @ [name product]\<rparr>)
      | None \<Rightarrow> s\<lparr>notFoundProducts := notFoundProducts s @ [productId]\<rparr>)"

definition selectAll :: "'p product list \<Rightarrow> 'p cart_line list \<Rightarrow> number list \<Rightarrow> 'p selection" where
  "selectAll menu cart ids =
     foldl (selectProduct menu) \<lparr>sel_cart = cart, addedProducts = [], notFoundProducts = []\<rparr> ids"

section \<open>The webhook\<close>

text \<open>
  An inbound event: the fields of the form the channel posts. Each is a string or is
  absent, except the sender's address, which the channel always sends.
\<close>

record event =
  Body :: "string option"
  From :: string
  ProfileName :: "string option"
  MediaUrl0 :: "string option"
  MediaContentType0 :: "string option"

text \<open>\<open>Body ? Body.toLowerCase().trim() : ''\<close>\<close>

definition normalizeBody :: "string option \<Rightarrow> error + string" where
  "normalizeBody b = (if truthy b then callOn b (\<lambda>s. trim (toLowerCase s)) else Inr [])"

text \<open>The basic variant (\<open>server.js\<close>) has no guard: \<open>Body.toLowerCase().trim()\<close>.\<close>

definition normalizeBody_basic :: "string option \<Rightarrow> error + string" where
  "normalizeBody_basic b = callOn b (\<lambda>s. trim (toLowerCase s))"

text \<open>\<open>MediaUrl0 && MediaContentType0 && MediaContentType0.startsWith('image/')\<close>\<close>

definition imageAttached :: "event \<Rightarrow> bool" where
  "imageAttached e =
     (truthy (MediaUrl0 e) \<and> truthy (MediaContentType0 e)
      \<and> startsWith (the (MediaContentType0 e)) ''image/'')"

definition setState :: "string \<Rightarrow> state \<Rightarrow> 'p world \<Rightarrow> 'p world" where
  "setState phone s w = w\<lparr>userStates := (userStates w)(phone \<mapsto> s)\<rparr>"

definition setCart :: "string \<Rightarrow> 'p cart_line list \<Rightarrow> 'p world \<Rightarrow> 'p world" where
  "setCart phone c w = w\<lparr>userCarts := (userCarts w)(phone \<mapsto> c)\<rparr>"

text \<open>\<open>userCarts.delete(phone + '_delivery'); userCarts.delete(phone + '_address')\<close>\<close>

definition clearPending :: "string \<Rightarrow> 'p world \<Rightarrow> 'p world" where
  "clearPending phone w =
     w\<lparr>userCarts_delivery := (userCarts_delivery w)(phone := None),
       userCarts_address := (userCarts_address w)(phone := None)\<rparr>"

text \<open>The branch of state \<open>DELIVERY_INFO\<close>.\<close>

definition deliveryInfo :: "'p numops \<Rightarrow> string \<Rightarrow> 'p cart_line list \<Rightarrow> string \<Rightarrow> 'p world \<Rightarrow> 'p world" where
  "deliveryInfo A phone cart message w =
     (if message = ''1'' then
        (let w1 = sendInteractiveMessage phone AskAddress w;
             w2 = setState phone PAYMENT_METHOD w1
         in w2\<lparr>userCarts_delivery := (userCarts_delivery w2)(phone \<mapsto> ''delivery'')\<rparr>)
      else if message = ''2'' then
        (let w1 = w\<lparr>userCarts_delivery := (userCarts_delivery w)(phone \<mapsto> ''pickup'')\<rparr>;
             w2 = sendInteractiveMessage phone (PaymentPromptPickup (formatCart A cart False)) w1
         in setState phone PAYMENT_METHOD w2)
      else sendInteractiveMessage phone InvalidDeliveryOption w)"

text \<open>The branch of state \<open>PAYMENT_METHOD\<close>.\<close>

definition paymentMethodBranch ::
  "'p numops \<Rightarrow> env \<Rightarrow> string \<Rightarrow> string \<Rightarrow> 'p cart_line list \<Rightarrow> string \<Rightarrow> 'p world \<Rightarrow> 'p world" where
  "paymentMethodBranch A E phone cName cart message w =
     (let dType = orElse (userCarts_delivery w phone) ''pickup'';
          addr = message
      in
      if dType = ''delivery'' \<and> \<not> truthy (userCarts_address w phone) then
        (let w1 = w\<lparr>userCarts_address := (userCarts_address w)(phone \<mapsto> addr)\<rparr>
         in sendMessage phone (PaymentPromptDelivery (formatCart A cart False) addr) w1)
      else if message = ''1'' then
        (let finalAddress = orElse (userCarts_address w phone) [];
             w1 = snd (processOrder A E phone cName cart dType finalAddress ''efectivo'' w)
         in clearPending phone w1)
      else if message = ''2'' then
        (let finalAddress = orElse (userCarts_address w phone) [];
             tot = cartTotal A cart;
             oid = natToString (nowWebhook E);
             mpLink = generateMercadoPagoLink tot oid cName;
             w1 = sendInteractiveMessage phone
                    (PayWithMercadoPago (formatCart A cart False) tot mpLink (sliceLast6 oid)) w;
             w2 = snd (processOrder A E phone cName cart dType finalAddress ''mercadopago'' w1);
             w3 = setState phone PAYMENT_CONFIRMATION w2
         in clearPending phone w3)
      else sendInteractiveMessage phone InvalidPaymentOption w)"

text \<open>The branch of a message of digits, commas and white space.\<close>

definition productSelection ::
  "'p numops \<Rightarrow> env \<Rightarrow> string \<Rightarrow> 'p cart_line list \<Rightarrow> string \<Rightarrow> 'p world \<Rightarrow> 'p world" where
  "productSelection A E phone cart message w =
     (let menu = getMenu A (menuResponse E);
          w0 = called (ValuesGet ''Menu!A:F'') w;
          s = selectAll menu cart (productIds message);
          w1 = setCart phone (sel_cart s) w0;
          w2 = sendMessage phone
                 (ProductsReply (addedProducts s) (notFoundProducts s) (formatCart A (sel_cart s) True)) w1
      in setState phone BROWSING_PRODUCTS w2)"

text \<open>
  The body of the handler, after the message is normalized. Every operation in the
  \<open>try\<close> block either cannot throw on such events or catches its own errors, so the
  handler's \<open>catch\<close> is never entered.
\<close>

definition dispatch :: "'p numops \<Rightarrow> env \<Rightarrow> event \<Rightarrow> string \<Rightarrow> 'p world \<Rightarrow> 'p world" where
  "dispatch A E e message w =
     (let phone = From e;
          cName = orElse (ProfileName e) ''Cliente'';
          userState = (case userStates w phone of None \<Rightarrow> MAIN_MENU | Some s \<Rightarrow> s);
          cart = (case userCarts w phone of None \<Rightarrow> [] | Some c \<Rightarrow> c)
      in
      if imageAttached e \<and> userState = PAYMENT_CONFIRMATION then
        (let w1 = snd (updateOrderStatus E phone ''PAGO_RECIBIDO'' w);
             w2 = sendMessage phone ReceiptReceived w1
         in setState phone MAIN_MENU w2)
      else if message = ''menu'' \<or> message = [CHR ''m'', CHR ''e'', CHR ''n'', CHR 0xFA] then
        (let menu = getMenu A (menuResponse E);
             w0 = called (ValuesGet ''Menu!A:F'') w;
             w1 = sendInteractiveMessage phone
                    (MenuAndCart (formatMenuWithButtons menu) (formatCart A cart True)) w0
         in setState phone BROWSING_PRODUCTS w1)
      else if message = ''carrito'' then
        sendInteractiveMessage phone (CartView (formatCart A cart True)) w
      else if message = ''limpiar'' then
        (let w1 = setCart phone [] w;
             w2 = sendInteractiveMessage phone (CartEmptied (formatCart A [] True)) w1
         in setState phone MAIN_MENU w2)
      else if message = ''cancelar'' then
        (if length cart > 0 then
           (let w1 = setCart phone [] w;
                w2 = setState phone MAIN_MENU w1
            in sendInteractiveMessage phone OrderCancelled w2)
         else sendInteractiveMessage phone NothingToCancel w)
      else if message = ''finalizar'' then
        (if length cart = 0 then sendInteractiveMessage phone CartIsEmpty w
         else
           (let w1 = sendInteractiveMessage phone (OrderSummary (formatCart A cart False)) w
            in setState phone DELIVERY_INFO w1))
      else if userState = DELIVERY_INFO then deliveryInfo A phone cart message w
      else if userState = PAYMENT_METHOD then paymentMethodBranch A E phone cName cart message w
      else if selectionPattern message then productSelection A E phone cart message w
      else
        (let w1 = sendMessage phone (Welcome cName) w
         in setState phone MAIN_MENU w1))"

text \<open>
  \<open>app.post('/webhook', ...)\<close>. The message is computed before the \<open>try\<close> block: an
  error there leaves the handler.
\<close>

definition webhook :: "'p numops \<Rightarrow> env \<Rightarrow> event \<Rightarrow> 'p world \<Rightarrow> error + 'p world" where
  "webhook A E e w =
     (case normalizeBody (Body e) of
        Inl err \<Rightarrow> Inl err
      | Inr message \<Rightarrow> Inr (dispatch A E e message w))"

section \<open>The admin endpoint\<close>

datatype response = Success | NotFound | ServerError

text \<open>
  The \<open>switch\<close> on the status: a text for six status values, the empty string
  (no notification) otherwise.
\<close>

definition notificationMessage :: "string \<Rightarrow> 'p msg option" where
  "notificationMessage status =
     (if status \<in> set [''PREPARANDO'', ''LISTO'', ''EN_DELIVERY'', ''ENTREGADO'', ''FINALIZADO'', ''CANCELADO'']
      then Some (StatusNotification status) else None)"

definition notifyCustomer :: "string \<Rightarrow> 'p msg \<Rightarrow> 'p world \<Rightarrow> 'p world" where
  "notifyCustomer phone m w = sendMessage phone m w"

text \<open>
  \<open>app.post('/api/orders/:phone/status', ...)\<close>. \<open>updateOrderStatus\<close> and
  \<open>notifyCustomer\<close> catch their own errors, so the handler's \<open>catch\<close>, which answers
  \<open>ServerError\<close>, is never entered.
\<close>

definition postOrderStatus :: "env \<Rightarrow> string \<Rightarrow> string \<Rightarrow> 'p world \<Rightarrow> response \<times> 'p world" where
  "postOrderStatus E phone status w =
     (let (success, w1) = updateOrderStatus E (''whatsapp:'' @ phone) status w
      in if success then
           (case notificationMessage status of
              Some m \<Rightarrow> (Success, notifyCustomer (''whatsapp:'' @ phone) m w1)
            | None \<Rightarrow> (Success, w1))
         else (NotFound, w1))"

text \<open>
  \<open>app.get('/api/orders', ...)\<close> reads the lifecycle status of a row from \<open>row[9]\<close> and
  the payment status from \<open>row[8]\<close>, with defaults for a missing cell.
\<close>

definition listedStatus :: "'p sheet_cell list \<Rightarrow> 'p sheet_cell" where
  "listedStatus row = (case cell row 9 of None \<Rightarrow> Str ''NUEVO'' | Some c \<Rightarrow> if c = Str [] then Str ''NUEVO'' else c)"

definition listedPaymentStatus :: "'p sheet_cell list \<Rightarrow> 'p sheet_cell" where
  "listedPaymentStatus row = (case cell row 8 of None \<Rightarrow> Str ''Pendiente'' | Some c \<Rightarrow> if c = Str [] then Str ''Pendiente'' else c)"

text \<open>The state when the process starts: empty maps, nothing sent.\<close>

definition initial :: "'p sheet_cell list list \<Rightarrow> 'p world" where
  "initial sheet =
     \<lparr> userCarts = Map.empty, userCarts_delivery = Map.empty, userCarts_address = Map.empty,
       userStates = Map.empty, pedidos = sheet, outbox = [], sheetCalls = [] \<rparr>"

section \<open>Sample data\<close>

text \<open>
  Concrete inputs on which the results below are evaluated: an arithmetic of whole
  prices, a catalog of three rows under a header, one customer, and the answers of the
  collaborators during one request (the clock advances by 850 ms between the two
  readings of \<open>Date.now()\<close>).
\<close>

definition wholeOps :: "int numops" where
  "wholeOps =
     \<lparr> parseFloat = (\<lambda>v. case parseIntVal v of Finite i \<Rightarrow> i | _ \<Rightarrow> 0),
       times = (\<lambda>p q. p * int q), plus = (+), zero = 0 \<rparr>"

definition sampleMenu :: "string list list" where
  "sampleMenu =
     [[''id'', ''name'', ''description'', ''price'', ''category'', ''available''],
      [''1'', ''Pizza'', ''Muzzarella'', ''1500'', ''Comidas'', ''TRUE''],
      [''2'', ''Empanada'', [], ''300'', ''Comidas'', ''TRUE''],
      [''3'', ''Agua'', [], ''200'', ''Bebidas'', ''FALSE'']]"

definition pizza :: "int product" where
  "pizza = \<lparr> prod_id = Some ''1'', name = Some ''Pizza'', description = ''Muzzarella'',
             price = 1500, category = Some ''Comidas'', available = True \<rparr>"

definition empanada :: "int product" where
  "empanada = \<lparr> prod_id = Some ''2'', name = Some ''Empanada'', description = [],
                price = 300, category = Some ''Comidas'', available = True \<rparr>"

definition sampleEnv :: env where
  "sampleEnv =
     \<lparr> menuResponse = Returned (Some sampleMenu), appendThrows = False,
       ordersGetThrows = False, updateThrows = False,
       isoNow = ''2023-11-14T22:13:20.850Z'',
       nowWebhook = 1700000000000, nowProcessOrder = 1700000000850 \<rparr>"

definition customer :: string where
  "customer = ''whatsapp:+5491100000000''"

definition textEvent :: "string \<Rightarrow> event" where
  "textEvent b =
     \<lparr> Body = Some b, From = customer, ProfileName = Some ''Ana'',
       MediaUrl0 = None, MediaContentType0 = None \<rparr>"

definition imageEvent :: "string option \<Rightarrow> event" where
  "imageEvent b =
     \<lparr> Body = b, From = customer, ProfileName = Some ''Ana'',
       MediaUrl0 = Some ''https://api.twilio.com/media/ME1'',
       MediaContentType0 = Some ''image/jpeg'' \<rparr>"

definition pedidosHeader :: "int sheet_cell list" where
  "pedidosHeader =
     map Str [''Fecha'', ''Telefono'', ''Cliente'', ''Items'', ''Total'', ''Entrega'',
              ''Direccion'', ''Pago'', ''Estado pago'', ''Estado'']"

text \<open>The customer's session in a given state, with a given cart and order sheet.\<close>

definition session :: "state \<Rightarrow> int cart_line list \<Rightarrow> int sheet_cell list list \<Rightarrow> int world" where
  "session st cart sheet =
     \<lparr> userCarts = [customer \<mapsto> cart], userCarts_delivery = Map.empty,
       userCarts_address = Map.empty, userStates = [customer \<mapsto> st],
       pedidos = sheet, outbox = [], sheetCalls = [] \<rparr>"

text \<open>
  A row of the order sheet as \<open>saveOrder\<close> writes it for an online payment, and the
  customer's session while choosing the payment method.
\<close>

definition pendingRow :: "int sheet_cell list" where
  "pendingRow =
     [Str ''2023-11-14T22:13:20.850Z'', Str customer, Str ''Ana'', Items [newLine pizza],
      Num 1500, Str ''pickup'', Str [], Str ''mercadopago'', Str ''Pendiente'', Str ''NUEVO'']"

definition choosingPayment :: "string \<Rightarrow> int world" where
  "choosingPayment dType =
     (session PAYMENT_METHOD [newLine pizza] [pedidosHeader])
       \<lparr>userCarts_delivery := [customer \<mapsto> dType]\<rparr>"

section \<open>Quantities and reachable states\<close>


definition resolve :: "'p product list \<Rightarrow> number \<Rightarrow> 'p product option" where
  "resolve menu productId = find (\<lambda>item. strictEquals (parseIntVal (prod_id item)) productId) menu"

text \<open>
  The states the process can be in: it starts with empty maps, and every request to the
  webhook or to the admin endpoint, with any answers of the collaborators, leads to the
  next state.
\<close>

inductive reachable :: "'p numops \<Rightarrow> 'p world \<Rightarrow> bool" for A :: "'p numops" where
  start: "reachable A (initial sheet)"
| message: "reachable A w \<Longrightarrow> webhook A E e w = Inr w' \<Longrightarrow> reachable A w'"
| admin: "reachable A w \<Longrightarrow> postOrderStatus E phone status w = (r, w') \<Longrightarrow> reachable A w'"

section \<open>Catalog gateway: \<open>getMenu\<close>\<close>

text \<open>
  A row with at least six cells has every cell the product is built from, and its
  availability flag is the sixth cell.
\<close>

lemma toProduct_full_row:
  "6 \<le> length row \<Longrightarrow>
     toProduct A row
       = \<lparr> prod_id = Some (row ! 0), name = Some (row ! 1), description = row ! 2,
           price = parseFloat A (Some (row ! 3)), category = Some (row ! 4),
           available = (row ! 5 = ''TRUE'') \<rparr>"
  by (auto simp add: toProduct_def cell_def orElse_def)

lemma available_row: "available (toProduct A row) = (6 \<le> length row \<and> row ! 5 = ''TRUE'')"
  by (auto simp add: toProduct_def cell_def)

lemma getMenu_rows:
  "filter available (map (toProduct A) data)
     = map (\<lambda>row. \<lparr> prod_id = Some (row ! 0), name = Some (row ! 1), description = row ! 2,
                     price = parseFloat A (Some (row ! 3)), category = Some (row ! 4),
                     available = True \<rparr>)
         (filter (\<lambda>row. 6 \<le> length row \<and> row ! 5 = ''TRUE'') data)"
  by (induction data) (simp_all add: available_row toProduct_full_row)

text \<open>
  C9. \<open>getMenu\<close> returns, in the order of the sheet, one product for each catalog row
  (the rows under the header row) whose availability flag, the sixth cell, is the
  literal \<open>TRUE\<close>, and nothing else: the product's id, name, description and category
  are the first, second, third and fifth cell of the row, its price is \<open>parseFloat\<close> of
  the fourth, and it is marked available. It returns the empty list when the read throws
  and when the read yields no rows. The result is a list in every case: the error of
  the read does not leave the function.
\<close>

theorem getMenu_available_rows:
  "getMenu A Threw = []
   \<and> getMenu A (Returned None) = []
   \<and> getMenu A (Returned (Some [])) = []
   \<and> getMenu A (Returned (Some (headers # data)))
       = map (\<lambda>row. \<lparr> prod_id = Some (row ! 0), name = Some (row ! 1), description = row ! 2,
                       price = parseFloat A (Some (row ! 3)), category = Some (row ! 4),
                       available = True \<rparr>)
           (filter (\<lambda>row. 6 \<le> length row \<and> row ! 5 = ''TRUE'') data)"
  by (simp add: getMenu_def getMenu_rows)

theorem getMenu_available_rows_witness:
  "getMenu wholeOps (Returned (Some sampleMenu))
     = [\<lparr> prod_id = Some ''1'', name = Some ''Pizza'', description = ''Muzzarella'',
           price = 1500, category = Some ''Comidas'', available = True \<rparr>,
        \<lparr> prod_id = Some ''2'', name = Some ''Empanada'', description = [],
           price = 300, category = Some ''Comidas'', available = True \<rparr>]"
proof -
  have pf: "parseFloat wholeOps (Some ''1500'') = 1500" "parseFloat wholeOps (Some ''300'') = 300"
    by code_simp+
  from getMenu_available_rows [of wholeOps "hd sampleMenu" "tl sampleMenu"]
  have "getMenu wholeOps (Returned (Some (hd sampleMenu # tl sampleMenu)))
     = map (\<lambda>row. \<lparr> prod_id = Some (row ! 0), name = Some (row ! 1), description = row ! 2,
                     price = parseFloat wholeOps (Some (row ! 3)), category = Some (row ! 4),
                     available = True \<rparr>)
         (filter (\<lambda>row. 6 \<le> length row \<and> row ! 5 = ''TRUE'') (tl sampleMenu))"
    by blast
  then show ?thesis
    by (simp add: sampleMenu_def pf)
qed

section \<open>Normalizing the message\<close>

lemma normalizeBody_total: "\<exists>m. normalizeBody b = Inr m"
  by (cases b) (simp_all add: normalizeBody_def)

lemma normalizeBody_basic_raises: "normalizeBody_basic None = Inl TypeError"
  by (simp add: normalizeBody_basic_def)

lemma normalizeBody_empty: "b = None \<or> b = Some [] \<Longrightarrow> normalizeBody b = Inr []"
  by (auto simp add: normalizeBody_def)

lemma selectionPattern_empty: "\<not> selectionPattern []"
  by (simp add: selectionPattern_def)

text \<open>
  C10. On an event whose \<open>Body\<close> is absent or empty the handler does not raise: it
  returns a state. When the sender's state is \<open>MAIN_MENU\<close> (also by default, with no
  entry) or \<open>BROWSING_PRODUCTS\<close>, with or without an image attached, that state is the
  old one with the welcome greeting sent and the sender's state set to \<open>MAIN_MENU\<close>;
  the cart, as everything else, is unchanged.
\<close>

theorem webhook_empty_body:
  assumes "Body e = None \<or> Body e = Some []"
  shows "\<exists>w'. webhook A E e w = Inr w'
     \<and> (userStates w (From e) = None \<or> userStates w (From e) = Some MAIN_MENU
          \<or> userStates w (From e) = Some BROWSING_PRODUCTS
        \<longrightarrow> w' = w\<lparr>outbox := outbox w @ [(From e, Welcome (orElse (ProfileName e) ''Cliente''))],
                   userStates := (userStates w)(From e \<mapsto> MAIN_MENU)\<rparr>)"
proof -
  have nb: "normalizeBody (Body e) = Inr []"
    using assms by (rule normalizeBody_empty)
  show ?thesis
    by (auto simp add: webhook_def nb dispatch_def Let_def selectionPattern_empty
          setState_def sendMessage_def)
qed

theorem webhook_empty_body_witness:
  "Body (imageEvent None) = None
   \<and> userStates (session BROWSING_PRODUCTS [newLine pizza] []) (From (imageEvent None))
       = Some BROWSING_PRODUCTS
   \<and> webhook wholeOps sampleEnv (imageEvent None) (session BROWSING_PRODUCTS [newLine pizza] [])
       = Inr ((session BROWSING_PRODUCTS [newLine pizza] [])
               \<lparr>outbox := [(customer, Welcome ''Ana'')],
                userStates := [customer \<mapsto> MAIN_MENU]\<rparr>)"
  using webhook_empty_body [of "imageEvent None" wholeOps sampleEnv
      "session BROWSING_PRODUCTS [newLine pizza] []"]
  by (auto simp add: imageEvent_def session_def orElse_def)

section \<open>Finalizing with an empty cart\<close>

lemma webhook_dispatch:
  "normalizeBody (Body e) = Inr m \<Longrightarrow> webhook A E e w = Inr (dispatch A E e m w)"
  by (simp add: webhook_def)

lemma normalizeBody_Some:
  "b \<noteq> [] \<Longrightarrow> normalizeBody (Some b) = Inr (trim (toLowerCase b))"
  by (simp add: normalizeBody_def)

lemma normalizeBody_finalizar: "normalizeBody (Some ''finalizar'') = Inr ''finalizar''"
  by (simp add: normalizeBody_def toLowerCase_def toLowerChar_def trim_def isSpace_def)

lemma normalizeBody_1: "normalizeBody (Some ''1'') = Inr ''1''"
  by (simp add: normalizeBody_def toLowerCase_def toLowerChar_def trim_def isSpace_def)

lemma normalizeBody_2: "normalizeBody (Some ''2'') = Inr ''2''"
  by (simp add: normalizeBody_def toLowerCase_def toLowerChar_def trim_def isSpace_def)

text \<open>
  C8, as stated, fails: the image branch comes before the commands. In state
  \<open>PAYMENT_CONFIRMATION\<close> an image whose caption is \<open>finalizar\<close>, with an empty cart,
  makes the handler read and write the order sheet and set the state to \<open>MAIN_MENU\<close>;
  the reply is the receipt confirmation, not the empty-cart reply.
\<close>

theorem finalizar_with_receipt_counterexample:
  "normalizeBody (Body (imageEvent (Some ''finalizar''))) = Inr ''finalizar''
   \<and> userCarts (session PAYMENT_CONFIRMATION [] [pedidosHeader, pendingRow]) customer = Some []
   \<and> webhook wholeOps sampleEnv (imageEvent (Some ''finalizar''))
        (session PAYMENT_CONFIRMATION [] [pedidosHeader, pendingRow])
      = Inr ((session PAYMENT_CONFIRMATION [] [pedidosHeader, pendingRow])
              \<lparr>userStates := [customer \<mapsto> MAIN_MENU],
               pedidos := [pedidosHeader, pendingRow @ [Str ''PAGO_RECIBIDO'']],
               outbox := [(customer, ReceiptReceived)],
               sheetCalls := [ValuesGet ''Pedidos!A:K'', ValuesUpdate ''Pedidos!K2'']\<rparr>)"
  by (simp add: webhook_def dispatch_def Let_def imageEvent_def session_def normalizeBody_finalizar
        imageAttached_def startsWith_def updateOrderStatus_def called_def sampleEnv_def
        cell_def pendingRow_def pedidosHeader_def natToString.simps updateCell_def setCell_def
        columnIndex_def sendMessage_def setState_def)

text \<open>
  C8, amended. When the command \<open>finalizar\<close> arrives for a session whose cart is empty
  (or absent), and the event is not an image received in state \<open>PAYMENT_CONFIRMATION\<close>,
  the only effect is the empty-cart reply: no call to the spreadsheet service is made,
  whatever the service would answer, and the session's state, cart and pending fields
  and the order sheet are as before.
\<close>

theorem finalizar_empty_cart:
  assumes "normalizeBody (Body e) = Inr ''finalizar''"
    and "userCarts w (From e) = None \<or> userCarts w (From e) = Some []"
    and "\<not> (imageAttached e \<and> userStates w (From e) = Some PAYMENT_CONFIRMATION)"
  shows "webhook A E e w = Inr (w\<lparr>outbox := outbox w @ [(From e, CartIsEmpty)]\<rparr>)"
  using assms
  by (auto simp add: webhook_def dispatch_def Let_def sendInteractiveMessage_def
        split: option.splits)

theorem finalizar_empty_cart_witness:
  "webhook wholeOps sampleEnv (textEvent ''finalizar'') (session BROWSING_PRODUCTS [] [pedidosHeader])
     = Inr ((session BROWSING_PRODUCTS [] [pedidosHeader])\<lparr>outbox := [(customer, CartIsEmpty)]\<rparr>)"
  using finalizar_empty_cart [of "textEvent ''finalizar''"
      "session BROWSING_PRODUCTS [] [pedidosHeader]" wholeOps sampleEnv]
  by (simp add: textEvent_def session_def normalizeBody_finalizar imageAttached_def)

section \<open>Order finalization\<close>

lemma processOrder_session:
  "userCarts (snd (processOrder A E phone cName cart dType addr pMethod w)) = (userCarts w)(phone \<mapsto> [])"
  "userStates (snd (processOrder A E phone cName cart dType addr pMethod w))
     = (userStates w)(phone \<mapsto> MAIN_MENU)"
  by (simp_all add: processOrder_def Let_def saveOrder_def called_def sendMessage_def)

lemma processOrder_calls:
  "sheetCalls (snd (processOrder A E phone cName cart dType addr pMethod w))
     = sheetCalls w @ [ValuesAppend ''Pedidos!A:K'']"
  by (simp add: processOrder_def Let_def saveOrder_def called_def sendMessage_def)

text \<open>
  C1, as stated, fails for the online payment: after \<open>processOrder\<close> has reset the
  state to \<open>MAIN_MENU\<close>, the branch of the webhook sets it to \<open>PAYMENT_CONFIRMATION\<close>,
  the state that waits for the proof of payment.
\<close>

theorem online_payment_state_counterexample:
  "userStates (choosingPayment ''pickup'') customer = Some PAYMENT_METHOD
   \<and> webhook wholeOps sampleEnv (textEvent ''2'') (choosingPayment ''pickup'')
       = Inr (dispatch wholeOps sampleEnv (textEvent ''2'') ''2'' (choosingPayment ''pickup''))
   \<and> sheetCalls (dispatch wholeOps sampleEnv (textEvent ''2'') ''2'' (choosingPayment ''pickup''))
       = [ValuesAppend ''Pedidos!A:K'']
   \<and> userCarts (dispatch wholeOps sampleEnv (textEvent ''2'') ''2'' (choosingPayment ''pickup'')) customer
       = Some []
   \<and> userStates (dispatch wholeOps sampleEnv (textEvent ''2'') ''2'' (choosingPayment ''pickup'')) customer
       = Some PAYMENT_CONFIRMATION
   \<and> userStates (dispatch wholeOps sampleEnv (textEvent ''2'') ''2'' (choosingPayment ''pickup'')) customer
       \<noteq> Some MAIN_MENU"
  by (simp add: webhook_def textEvent_def normalizeBody_2 dispatch_def Let_def choosingPayment_def
        session_def imageAttached_def paymentMethodBranch_def orElse_def processOrder_session
        processOrder_calls clearPending_def setState_def sendInteractiveMessage_def)

text \<open>
  C1, amended. The events that finalize an order are those received in state
  \<open>PAYMENT_METHOD\<close> whose message is \<open>1\<close> (cash) or \<open>2\<close> (online), once the address of
  a delivery is recorded. For each of them, whatever the delivery type, the handler
  makes one append to the order sheet and leaves the session's cart empty; the session's
  state is \<open>MAIN_MENU\<close> after a cash payment and \<open>PAYMENT_CONFIRMATION\<close> after an online
  payment.
\<close>

theorem finalization_clears_session:
  assumes st: "userStates w (From e) = Some PAYMENT_METHOD"
    and m: "normalizeBody (Body e) = Inr m"
    and choice: "m = ''1'' \<or> m = ''2''"
    and ready: "\<not> (orElse (userCarts_delivery w (From e)) ''pickup'' = ''delivery''
                    \<and> \<not> truthy (userCarts_address w (From e)))"
  shows "\<exists>w'. webhook A E e w = Inr w'
          \<and> sheetCalls w' = sheetCalls w @ [ValuesAppend ''Pedidos!A:K'']
          \<and> userCarts w' (From e) = Some []
          \<and> userStates w' (From e) = Some (if m = ''1'' then MAIN_MENU else PAYMENT_CONFIRMATION)"
proof -
  have d: "dispatch A E e m w
             = paymentMethodBranch A E (From e) (orElse (ProfileName e) ''Cliente'')
                 (case userCarts w (From e) of None \<Rightarrow> [] | Some c \<Rightarrow> c) m w"
    using st choice by (auto simp add: dispatch_def Let_def)
  show ?thesis
    using choice ready
    by (auto simp add: webhook_dispatch [OF m] d paymentMethodBranch_def Let_def
          processOrder_session processOrder_calls clearPending_def setState_def
          sendInteractiveMessage_def)
qed

theorem finalization_clears_session_witness:
  "webhook wholeOps sampleEnv (textEvent ''1'') (choosingPayment ''pickup'')
     = Inr (dispatch wholeOps sampleEnv (textEvent ''1'') ''1'' (choosingPayment ''pickup''))
   \<and> sheetCalls (dispatch wholeOps sampleEnv (textEvent ''1'') ''1'' (choosingPayment ''pickup''))
       = [ValuesAppend ''Pedidos!A:K'']
   \<and> userCarts (dispatch wholeOps sampleEnv (textEvent ''1'') ''1'' (choosingPayment ''pickup'')) customer
       = Some []
   \<and> userStates (dispatch wholeOps sampleEnv (textEvent ''1'') ''1'' (choosingPayment ''pickup'')) customer
       = Some MAIN_MENU"
  using finalization_clears_session [of "choosingPayment ''pickup''" "textEvent ''1''" "''1''"
      wholeOps sampleEnv]
  by (auto simp add: webhook_def choosingPayment_def session_def textEvent_def normalizeBody_1
        orElse_def)

section \<open>Recording the delivery address\<close>

lemma normalizeBody_address:
  "normalizeBody (Some ''Av. Corrientes 1234'') = Inr ''av. corrientes 1234''"
  by code_simp

text \<open>
  C6, as stated, fails: the address stored is the normalized message (lower case,
  trimmed), the same value the commands are compared with, not the text as received.
\<close>

theorem address_lowercased_counterexample:
  "Body (textEvent ''Av. Corrientes 1234'') = Some ''Av. Corrientes 1234''
   \<and> webhook wholeOps sampleEnv (textEvent ''Av. Corrientes 1234'') (choosingPayment ''delivery'')
       = Inr ((choosingPayment ''delivery'')
               \<lparr>userCarts_address := [customer \<mapsto> ''av. corrientes 1234''],
                outbox := [(customer,
                   PaymentPromptDelivery (formatCart wholeOps [newLine pizza] False)
                     ''av. corrientes 1234'')]\<rparr>)
   \<and> ''av. corrientes 1234'' \<noteq> ''Av. Corrientes 1234''"
  by (simp add: webhook_def textEvent_def normalizeBody_address dispatch_def Let_def
        choosingPayment_def session_def imageAttached_def selectionPattern_def
        paymentMethodBranch_def orElse_def sendMessage_def)

text \<open>
  The commands come before the states: in the same session the message \<open>menu\<close> shows
  the menu and records no address.
\<close>

lemma command_before_address:
  "userCarts_address (dispatch wholeOps sampleEnv (textEvent ''menu'') ''menu''
      (choosingPayment ''delivery'')) customer = None
   \<and> userStates (dispatch wholeOps sampleEnv (textEvent ''menu'') ''menu''
      (choosingPayment ''delivery'')) customer = Some BROWSING_PRODUCTS"
  by (simp add: textEvent_def dispatch_def Let_def choosingPayment_def session_def
        imageAttached_def sendInteractiveMessage_def setState_def called_def)

text \<open>
  C6, amended. In state \<open>PAYMENT_METHOD\<close> with pending delivery type \<open>delivery\<close> and no
  address recorded yet, every inbound message whose normalized text (lower case,
  trimmed) is not one of the commands \<open>menu\<close> (with or without the accent), \<open>carrito\<close>,
  \<open>limpiar\<close>, \<open>cancelar\<close>, \<open>finalizar\<close> is stored as the pending address in its
  normalized form. The payment-method prompt is sent and nothing else changes: the state
  remains \<open>PAYMENT_METHOD\<close>, no call to the spreadsheet service is made and no order is
  created.
\<close>

theorem address_recorded:
  assumes st: "userStates w (From e) = Some PAYMENT_METHOD"
    and del: "userCarts_delivery w (From e) = Some ''delivery''"
    and noaddr: "\<not> truthy (userCarts_address w (From e))"
    and m: "normalizeBody (Body e) = Inr m"
    and notcmd: "m \<notin> set [''menu'', [CHR ''m'', CHR ''e'', CHR ''n'', CHR 0xFA], ''carrito'',
                           ''limpiar'', ''cancelar'', ''finalizar'']"
  shows "webhook A E e w
     = Inr (w\<lparr>userCarts_address := (userCarts_address w)(From e \<mapsto> m),
              outbox := outbox w @ [(From e,
                 PaymentPromptDelivery
                   (formatCart A (case userCarts w (From e) of None \<Rightarrow> [] | Some c \<Rightarrow> c) False) m)]\<rparr>)"
  using st del noaddr notcmd
  by (simp add: webhook_dispatch [OF m] dispatch_def Let_def paymentMethodBranch_def orElse_def
        sendMessage_def)

theorem address_recorded_witness:
  "webhook wholeOps sampleEnv (textEvent ''Av. Corrientes 1234'') (choosingPayment ''delivery'')
       = Inr ((choosingPayment ''delivery'')
               \<lparr>userCarts_address := [customer \<mapsto> ''av. corrientes 1234''],
                outbox := [(customer,
                   PaymentPromptDelivery (formatCart wholeOps [newLine pizza] False)
                     ''av. corrientes 1234'')]\<rparr>)"
  using address_recorded [of "choosingPayment ''delivery''" "textEvent ''Av. Corrientes 1234''"
      "''av. corrientes 1234''" wholeOps sampleEnv]
  by (simp add: textEvent_def normalizeBody_address choosingPayment_def session_def)

section \<open>Order status: \<open>updateOrderStatus\<close>\<close>

lemma updateOrderStatus_frame:
  "userCarts (snd (updateOrderStatus E phone s w)) = userCarts w"
  "userCarts_delivery (snd (updateOrderStatus E phone s w)) = userCarts_delivery w"
  "userCarts_address (snd (updateOrderStatus E phone s w)) = userCarts_address w"
  "userStates (snd (updateOrderStatus E phone s w)) = userStates w"
  "outbox (snd (updateOrderStatus E phone s w)) = outbox w"
  by (simp_all add: updateOrderStatus_def Let_def called_def split: option.splits)

lemma cell_setCell:
  "i < j \<Longrightarrow> cell (setCell row j v) i = (if i < length row then cell row i else Some (Str []))"
  by (auto simp add: cell_def setCell_def nth_append)

lemma listedPaymentStatus_setCell:
  "8 < j \<Longrightarrow> listedPaymentStatus (setCell row j v) = listedPaymentStatus row"
  by (simp add: listedPaymentStatus_def cell_setCell) (simp add: cell_def)

lemma listedStatus_setCell:
  "9 < j \<Longrightarrow> listedStatus (setCell row j v) = listedStatus row"
  by (simp add: listedStatus_def cell_setCell) (simp add: cell_def)

lemma columnIndex_K: "columnIndex (CHR ''K'') = 10"
  by (simp add: columnIndex_def)

lemma listed_updateCell_K:
  "map listedPaymentStatus (updateCell (CHR ''K'') n v rows) = map listedPaymentStatus rows"
  "map listedStatus (updateCell (CHR ''K'') n v rows) = map listedStatus rows"
  by (auto simp add: updateCell_def columnIndex_K cell_def map_update listedPaymentStatus_setCell
        listedStatus_setCell list_update_same_conv)

text \<open>
  The order listing reads the payment status from cell 8 and the lifecycle status from
  cell 9 of a row. No call of \<open>updateOrderStatus\<close> changes what it reads.
\<close>

lemma listed_updateOrderStatus:
  "map listedPaymentStatus (pedidos (snd (updateOrderStatus E phone s w))) = map listedPaymentStatus (pedidos w)"
  "map listedStatus (pedidos (snd (updateOrderStatus E phone s w))) = map listedStatus (pedidos w)"
  by (simp_all add: updateOrderStatus_def Let_def called_def listed_updateCell_K split: option.splits)

lemma updateOrderStatus_first_call:
  "take (Suc (length (sheetCalls w))) (sheetCalls (snd (updateOrderStatus E phone s w)))
     = sheetCalls w @ [ValuesGet ''Pedidos!A:K'']"
  by (simp add: updateOrderStatus_def Let_def called_def split: option.splits)

text \<open>
  The scan: \<open>findLatest\<close> returns the greatest index from 1 to \<open>k\<close> whose row has the
  phone in its second cell, and \<open>None\<close> exactly when there is none.
\<close>

lemma findLatest_Some:
  "findLatest rows phone k = Some i \<Longrightarrow>
     0 < i \<and> i \<le> k \<and> i < length rows \<and> cell (rows ! i) 1 = Some (Str phone)
     \<and> (\<forall>j. i < j \<and> j \<le> k \<longrightarrow> cell (rows ! j) 1 \<noteq> Some (Str phone))"
proof (induction k)
  case 0
  then show ?case by simp
next
  case (Suc k)
  show ?case
  proof (cases "cell rows (Suc k)")
    case None
    with Suc.prems show ?thesis by simp
  next
    case (Some row)
    then have row: "Suc k < length rows" "rows ! Suc k = row"
      by (auto simp add: cell_def split: if_splits)
    show ?thesis
    proof (cases "cell row 1 = Some (Str phone)")
      case True
      with Suc.prems Some row show ?thesis by auto
    next
      case False
      with Suc.prems Some have "findLatest rows phone k = Some i" by simp
      from Suc.IH [OF this] False row show ?thesis
        by (auto simp add: le_Suc_eq)
    qed
  qed
qed

lemma findLatest_None:
  "k < length rows \<Longrightarrow> findLatest rows phone k = None \<Longrightarrow>
     (\<forall>j. 0 < j \<and> j \<le> k \<longrightarrow> cell (rows ! j) 1 \<noteq> Some (Str phone))"
proof (induction k)
  case 0
  then show ?case by simp
next
  case (Suc k)
  then show ?case
    by (auto simp add: cell_def le_Suc_eq split: if_splits)
qed

lemma findLatest_no_match:
  "(\<forall>j. 0 < j \<and> j \<le> k \<longrightarrow> cell (rows ! j) 1 \<noteq> Some (Str phone)) \<Longrightarrow>
     findLatest rows phone k = None"
  by (induction k) (auto simp add: cell_def split: option.splits)

lemma updateOrderStatus_no_match:
  assumes "\<forall>j. 0 < j \<and> j < length (pedidos w) \<longrightarrow> cell (pedidos w ! j) 1 \<noteq> Some (Str phone)"
  shows "updateOrderStatus E phone s w = (False, called (ValuesGet ''Pedidos!A:K'') w)"
proof -
  have "findLatest (pedidos w) phone (length (pedidos w) - 1) = None"
    using assms by (intro findLatest_no_match) auto
  then show ?thesis
    by (simp add: updateOrderStatus_def Let_def called_def)
qed

lemma postOrderStatus_not_found:
  assumes "\<forall>j. 0 < j \<and> j < length (pedidos w) \<longrightarrow>
              cell (pedidos w ! j) 1 \<noteq> Some (Str (''whatsapp:'' @ phone))"
  shows "postOrderStatus E phone status w = (NotFound, called (ValuesGet ''Pedidos!A:K'') w)"
  using updateOrderStatus_no_match [OF assms, of E status]
  by (simp add: postOrderStatus_def)

lemma updateOrderStatus_match:
  assumes "findLatest (pedidos w) phone (length (pedidos w) - 1) = Some i"
    and "\<not> ordersGetThrows E" and "\<not> updateThrows E"
  shows "fst (updateOrderStatus E phone s w) = True"
    and "pedidos (snd (updateOrderStatus E phone s w))
           = (pedidos w)[i := setCell (pedidos w ! i) 10 (Str s)]"
proof -
  from findLatest_Some [OF assms(1)] have i: "0 < i" "i < length (pedidos w)" by auto
  then have len: "\<not> length (pedidos w) \<le> 1" by auto
  show "fst (updateOrderStatus E phone s w) = True"
    using assms len by (simp add: updateOrderStatus_def Let_def called_def)
  show "pedidos (snd (updateOrderStatus E phone s w))
           = (pedidos w)[i := setCell (pedidos w ! i) 10 (Str s)]"
    using assms len i
    by (simp add: updateOrderStatus_def Let_def called_def updateCell_def cell_def columnIndex_K)
qed

text \<open>
  C7. \<open>updateOrderStatus\<close> scans the rows from the last one down to row 1 and stops
  at the first whose phone matches (\<open>findLatest_Some\<close>); with no match it returns
  \<open>false\<close>, and the endpoint answers \<open>NotFound\<close> and sends nothing
  (\<open>postOrderStatus_not_found\<close>). The status field is not overwritten: \<open>saveOrder\<close>
  writes the status in the tenth cell (column J) and the order listing reads it from
  \<open>row[9]\<close>, while the update writes column K, the eleventh. Evaluated on a sheet with
  one order of the customer: the endpoint answers \<open>Success\<close> and notifies the customer,
  the new status is appended as an eleventh cell, and the status cell still holds
  \<open>NUEVO\<close>.
\<close>

theorem status_update_misses_status_column:
  "postOrderStatus sampleEnv ''+5491100000000'' ''PREPARANDO''
       (session MAIN_MENU [] [pedidosHeader, pendingRow])
     = (Success,
        (session MAIN_MENU [] [pedidosHeader, pendingRow])
          \<lparr>pedidos := [pedidosHeader, pendingRow @ [Str ''PREPARANDO'']],
           outbox := [(customer, StatusNotification ''PREPARANDO'')],
           sheetCalls := [ValuesGet ''Pedidos!A:K'', ValuesUpdate ''Pedidos!K2'']\<rparr>)
   \<and> cell pendingRow 9 = Some (Str ''NUEVO'')
   \<and> cell (pendingRow @ [Str ''PREPARANDO'']) 9 = Some (Str ''NUEVO'')
   \<and> listedStatus (pendingRow @ [Str ''PREPARANDO'']) = Str ''NUEVO''"
  by (simp add: postOrderStatus_def updateOrderStatus_def Let_def called_def sampleEnv_def
        session_def cell_def pendingRow_def pedidosHeader_def customer_def natToString.simps
        updateCell_def setCell_def columnIndex_def notificationMessage_def notifyCustomer_def
        sendMessage_def listedStatus_def)

section \<open>Proof of payment\<close>

text \<open>
  In state \<open>PAYMENT_CONFIRMATION\<close> an image makes the handler call
  \<open>updateOrderStatus\<close> for the sender with the marker \<open>PAGO_RECIBIDO\<close>, send the
  confirmation text and set the state to \<open>MAIN_MENU\<close>. Neither the payment status nor
  the lifecycle status that the order listing reads changes for any row.
\<close>

lemma receipt_image_handled:
  assumes img: "imageAttached e" and st: "userStates w (From e) = Some PAYMENT_CONFIRMATION"
  shows "\<exists>w'. webhook A E e w = Inr w'
     \<and> w' = setState (From e) MAIN_MENU
              (sendMessage (From e) ReceiptReceived
                (snd (updateOrderStatus E (From e) ''PAGO_RECIBIDO'' w)))
     \<and> outbox w' = outbox w @ [(From e, ReceiptReceived)]
     \<and> userStates w' (From e) = Some MAIN_MENU
     \<and> map listedPaymentStatus (pedidos w') = map listedPaymentStatus (pedidos w)
     \<and> map listedStatus (pedidos w') = map listedStatus (pedidos w)"
proof -
  obtain m where m: "normalizeBody (Body e) = Inr m"
    using normalizeBody_total by blast
  show ?thesis
    using img st
    by (simp add: webhook_dispatch [OF m] dispatch_def Let_def setState_def sendMessage_def
          updateOrderStatus_frame listed_updateOrderStatus)
qed

text \<open>
  C5. In state \<open>PAYMENT_CONFIRMATION\<close> an event with an image sets the payment status
  of the persisted order to a received marker, sends a confirmation text and sets the
  state to \<open>MAIN_MENU\<close>. The text is sent and the state is set, but the order is not
  marked: the handler passes the marker \<open>PAGO_RECIBIDO\<close> to \<open>updateOrderStatus\<close>,
  which writes column K, a column that \<open>saveOrder\<close> does not fill and the order listing
  does not read. Evaluated on a sheet with one pending online order of the customer: the
  marker is appended as an eleventh cell, the payment status (ninth cell) still holds
  \<open>Pendiente\<close> and the lifecycle status (tenth cell) still holds \<open>NUEVO\<close>.
\<close>

theorem receipt_marker_misses_status:
  "imageAttached (imageEvent None)
   \<and> userStates (session PAYMENT_CONFIRMATION [] [pedidosHeader, pendingRow]) customer
       = Some PAYMENT_CONFIRMATION
   \<and> webhook wholeOps sampleEnv (imageEvent None)
        (session PAYMENT_CONFIRMATION [] [pedidosHeader, pendingRow])
      = Inr ((session PAYMENT_CONFIRMATION [] [pedidosHeader, pendingRow])
              \<lparr>userStates := [customer \<mapsto> MAIN_MENU],
               pedidos := [pedidosHeader, pendingRow @ [Str ''PAGO_RECIBIDO'']],
               outbox := [(customer, ReceiptReceived)],
               sheetCalls := [ValuesGet ''Pedidos!A:K'', ValuesUpdate ''Pedidos!K2'']\<rparr>)
   \<and> cell (pendingRow @ [Str ''PAGO_RECIBIDO'']) 8 = Some (Str ''Pendiente'')
   \<and> cell (pendingRow @ [Str ''PAGO_RECIBIDO'']) 9 = Some (Str ''NUEVO'')
   \<and> listedPaymentStatus (pendingRow @ [Str ''PAGO_RECIBIDO'']) = Str ''Pendiente''
   \<and> listedStatus (pendingRow @ [Str ''PAGO_RECIBIDO'']) = Str ''NUEVO''"
  by (simp add: webhook_def dispatch_def Let_def imageEvent_def session_def normalizeBody_def
        imageAttached_def startsWith_def updateOrderStatus_def called_def sampleEnv_def
        cell_def pendingRow_def pedidosHeader_def natToString.simps updateCell_def setCell_def
        columnIndex_def sendMessage_def setState_def listedPaymentStatus_def listedStatus_def)

section \<open>The order id of an online payment\<close>

text \<open>
  \<open>processOrder\<close> returns the id it put in the order data, the reading of the clock
  when it starts; the confirmation text shows its last six digits.
\<close>

lemma processOrder_returns_id:
  "fst (processOrder A E phone cName cart dType addr pMethod w) = natToString (nowProcessOrder E)"
  by (simp add: processOrder_def Let_def)

lemma processOrder_outbox:
  "outbox (snd (processOrder A E phone cName cart dType addr pMethod w))
     = outbox w @ [(phone, OrderConfirmed
         (confirmMessage A (fst (processOrder A E phone cName cart dType addr pMethod w))
            cart dType addr pMethod))]"
  by (simp add: processOrder_def Let_def saveOrder_def called_def sendMessage_def)

text \<open>
  The branch of the online payment reads the clock itself for the id of the payment link
  and the transfer concept, sends them, and then calls \<open>processOrder\<close>, whose result it
  drops.
\<close>

lemma online_payment_outbox:
  assumes st: "userStates w (From e) = Some PAYMENT_METHOD"
    and ready: "\<not> (orElse (userCarts_delivery w (From e)) ''pickup'' = ''delivery''
                    \<and> \<not> truthy (userCarts_address w (From e)))"
  shows "outbox (dispatch A E e ''2'' w)
     = outbox w @
       [(From e, PayWithMercadoPago
           (formatCart A (case userCarts w (From e) of None \<Rightarrow> [] | Some c \<Rightarrow> c) False)
           (cartTotal A (case userCarts w (From e) of None \<Rightarrow> [] | Some c \<Rightarrow> c))
           \<lparr>amount = cartTotal A (case userCarts w (From e) of None \<Rightarrow> [] | Some c \<Rightarrow> c),
             concept = sliceLast6 (natToString (nowWebhook E))\<rparr>
           (sliceLast6 (natToString (nowWebhook E)))),
        (From e, OrderConfirmed
           (confirmMessage A (natToString (nowProcessOrder E))
              (case userCarts w (From e) of None \<Rightarrow> [] | Some c \<Rightarrow> c)
              (orElse (userCarts_delivery w (From e)) ''pickup'')
              (orElse (userCarts_address w (From e)) [])
              ''mercadopago''))]"
  using st ready
  by (auto simp add: dispatch_def Let_def paymentMethodBranch_def processOrder_outbox
        processOrder_returns_id clearPending_def setState_def sendInteractiveMessage_def
        generateMercadoPagoLink_def)

text \<open>
  C4. \<open>processOrder\<close> returns the id of the order it handles, and the order id in the
  payment link and in the payment instructions is the id of the order persisted for that
  finalization. The second part does not hold in the code. Evaluated on an online
  payment during which the clock advances by 850 ms between the webhook's reading and
  \<open>processOrder\<close>'s: \<open>processOrder\<close> returns \<open>1700000000850\<close> and its confirmation
  shows order and concept \<open>000850\<close>, while the link and the instructions sent before
  carry \<open>000000\<close>. The row appended to the sheet holds no id at all.
\<close>

theorem online_payment_two_order_ids:
  "webhook wholeOps sampleEnv (textEvent ''2'') (choosingPayment ''pickup'')
     = Inr (dispatch wholeOps sampleEnv (textEvent ''2'') ''2'' (choosingPayment ''pickup''))
   \<and> fst (processOrder wholeOps sampleEnv customer ''Ana'' [newLine pizza] ''pickup'' []
           ''mercadopago''
           (sendInteractiveMessage customer
              (PayWithMercadoPago (formatCart wholeOps [newLine pizza] False) 1500
                 \<lparr>amount = 1500, concept = ''000000''\<rparr> ''000000'')
              (choosingPayment ''pickup'')))
       = ''1700000000850''
   \<and> outbox (dispatch wholeOps sampleEnv (textEvent ''2'') ''2'' (choosingPayment ''pickup''))
       = [(customer, PayWithMercadoPago (formatCart wholeOps [newLine pizza] False) 1500
             \<lparr>amount = 1500, concept = ''000000''\<rparr> ''000000''),
          (customer, OrderConfirmed
             \<lparr>orderNumber = ''000850'', itemLines = [(Some ''Pizza'', 1, 1500)],
               confirmedTotal = 1500, paidWith = ''MercadoPago'', deliveryTo = None,
               transferConcept = Some ''000850''\<rparr>)]
   \<and> pedidos (dispatch wholeOps sampleEnv (textEvent ''2'') ''2'' (choosingPayment ''pickup''))
       = [pedidosHeader,
          [Str ''2023-11-14T22:13:20.850Z'', Str customer, Str ''Ana'', Items [newLine pizza],
           Num 1500, Str ''pickup'', Str [], Str ''mercadopago'', Str ''Pendiente'', Str ''NUEVO'']]"
  by (simp add: webhook_def textEvent_def normalizeBody_2 dispatch_def Let_def choosingPayment_def
        session_def imageAttached_def paymentMethodBranch_def orElse_def processOrder_def
        saveOrder_def orderRow_def called_def sampleEnv_def confirmMessage_def cartTotal_def
        wholeOps_def newLine_def pizza_def natToString.simps sliceLast6_def
        generateMercadoPagoLink_def formatCart_def
        clearPending_def setState_def sendInteractiveMessage_def sendMessage_def)

section \<open>Product selection\<close>


lemma map_prod_id_incrementFirst: "map prod_id (incrementFirst j cart) = map prod_id cart"
  by (induction cart) simp_all

lemma increment_exact: "q + 1 < 9007199254740992 \<Longrightarrow> increment q = q + 1"
  by (simp add: increment_def roundToDouble_def)




lemma selectProduct_distinct:
  "distinct (map prod_id (sel_cart s)) \<Longrightarrow> distinct (map prod_id (sel_cart (selectProduct menu s t)))"
  by (auto simp add: selectProduct_def map_prod_id_incrementFirst find_None_iff newLine_def
        split: option.splits)


lemma foldl_selectProduct_distinct:
  "distinct (map prod_id (sel_cart s)) \<Longrightarrow>
     distinct (map prod_id (sel_cart (foldl (selectProduct menu) s ts)))"
  by (induction ts arbitrary: s) (simp_all add: selectProduct_distinct)

lemma selectionPattern_not_command:
  assumes "selectionPattern m"
  shows "m \<noteq> ''menu''" "m \<noteq> [CHR ''m'', CHR ''e'', CHR ''n'', CHR 0xFA]" "m \<noteq> ''carrito''"
    "m \<noteq> ''limpiar''" "m \<noteq> ''cancelar''" "m \<noteq> ''finalizar''"
  using assms
  by (auto simp add: selectionPattern_def isDigit_def isSeparator_def isSpace_def)

lemma dispatch_selection:
  assumes pat: "selectionPattern m"
    and st: "userStates w (From e) \<noteq> Some DELIVERY_INFO" "userStates w (From e) \<noteq> Some PAYMENT_METHOD"
    and img: "\<not> (imageAttached e \<and> userStates w (From e) = Some PAYMENT_CONFIRMATION)"
  shows "dispatch A E e m w
     = productSelection A E (From e) (case userCarts w (From e) of None \<Rightarrow> [] | Some c \<Rightarrow> c) m w"
  using st img selectionPattern_not_command [OF pat] pat
  by (auto simp add: dispatch_def Let_def split: option.splits)





lemma menuResponse_sample: "menuResponse sampleEnv = Returned (Some sampleMenu)"
  by (simp add: sampleEnv_def)

lemma getMenu_sample: "getMenu wholeOps (Returned (Some sampleMenu)) = [pizza, empanada]"
  by code_simp

lemma resolve_sample:
  "resolve (getMenu wholeOps (menuResponse sampleEnv)) (Finite 1) = Some pizza"
  "resolve (getMenu wholeOps (menuResponse sampleEnv)) (Finite 2) = Some empanada"
  unfolding menuResponse_sample getMenu_sample by code_simp+


text \<open>
  Ids and tokens are compared as the doubles \<open>parseInt\<close> returns: above \<open>2^53\<close> two
  different digit strings can be the same number, and then the token selects the
  product. At \<open>2^53\<close> a quantity stops growing.
\<close>

lemma parseInt_rounds:
  "parseInt ''9007199254740993'' = Finite 9007199254740992"
  "parseInt ''9007199254740992'' = Finite 9007199254740992"
  by code_simp+

lemma rounded_token_resolves:
  "resolve [pizza\<lparr>prod_id := Some ''9007199254740992''\<rparr>] (parseInt ''9007199254740993'')
     = Some (pizza\<lparr>prod_id := Some ''9007199254740992''\<rparr>)"
  by (simp add: resolve_def parseInt_rounds parseIntVal_def strictEquals_def)

lemma increment_stops: "increment 9007199254740992 = 9007199254740992"
proof -
  have "roundToDouble 9007199254740993 = Some 9007199254740992"
    by code_simp
  then show ?thesis
    by (simp add: increment_def)
qed



text \<open>
  The hypothesis on the cart holds in every state the process can reach: every request
  keeps the ids of the lines of every cart distinct.
\<close>

lemma dispatch_carts:
  "userCarts (dispatch A E e m w) = userCarts w
   \<or> userCarts (dispatch A E e m w) = (userCarts w)(From e \<mapsto> [])
   \<or> userCarts (dispatch A E e m w)
       = (userCarts w)(From e \<mapsto> sel_cart (selectAll (getMenu A (menuResponse E))
            (case userCarts w (From e) of None \<Rightarrow> [] | Some c \<Rightarrow> c) (productIds m)))"
  by (simp add: dispatch_def Let_def updateOrderStatus_frame sendMessage_def
        sendInteractiveMessage_def setState_def setCart_def called_def deliveryInfo_def
        paymentMethodBranch_def processOrder_session clearPending_def productSelection_def)

lemma postOrderStatus_carts: "userCarts (snd (postOrderStatus E phone status w)) = userCarts w"
  by (simp add: postOrderStatus_def split_beta notifyCustomer_def sendMessage_def
        updateOrderStatus_frame split: option.splits)

lemma webhook_preserves_distinct:
  assumes inv: "\<And>phone cart. userCarts w phone = Some cart \<Longrightarrow> distinct (map prod_id cart)"
    and step: "webhook A E e w = Inr w'"
    and c: "userCarts w' phone = Some cart"
  shows "distinct (map prod_id cart)"
proof -
  obtain m where m: "normalizeBody (Body e) = Inr m"
    using normalizeBody_total by blast
  have w': "w' = dispatch A E e m w"
    using step by (simp add: webhook_dispatch [OF m])
  have d0: "distinct (map prod_id (case userCarts w (From e) of None \<Rightarrow> [] | Some c \<Rightarrow> c))"
    using inv by (auto split: option.splits)
  have sel: "distinct (map prod_id (sel_cart (selectAll (getMenu A (menuResponse E))
            (case userCarts w (From e) of None \<Rightarrow> [] | Some c \<Rightarrow> c) (productIds m))))"
    using d0 by (simp add: selectAll_def foldl_selectProduct_distinct)
  from dispatch_carts [of A E e m w] show ?thesis
    using c inv sel unfolding w' by (auto split: if_splits)
qed

lemma reachable_carts_distinct:
  "reachable A w \<Longrightarrow> userCarts w phone = Some cart \<Longrightarrow> distinct (map prod_id cart)"
proof (induction arbitrary: phone cart rule: reachable.induct)
  case (start sheet)
  then show ?case by (simp add: initial_def)
next
  case (message w E e w')
  then show ?case using webhook_preserves_distinct by blast
next
  case (admin w E ph status r w')
  from admin.hyps(2) have "userCarts w' = userCarts w"
    using postOrderStatus_carts [of E ph status w] by simp
  with admin show ?case by simp
qed

section \<open>The scenario \<open>1,2,1\<close>\<close>

lemma productIds_1_2_1: "productIds ''1,2,1'' = [Finite 1, Finite 2, Finite 1]"
  by code_simp

lemma selectionPattern_1_2_1: "selectionPattern ''1,2,1''"
  by (simp add: selectionPattern_def isDigit_def isSeparator_def)

lemma normalizeBody_1_2_1: "normalizeBody (Some ''1,2,1'') = Inr ''1,2,1''"
  by code_simp

lemma resolve_id:
  "resolve menu t = Some p \<Longrightarrow> parseIntVal (prod_id p) = t"
  by (auto simp add: resolve_def find_Some_iff strictEquals_def)

lemma selectAll_1_2_1:
  assumes p1: "resolve menu (Finite 1) = Some p1" and p2: "resolve menu (Finite 2) = Some p2"
  shows "selectAll menu [] [Finite 1, Finite 2, Finite 1]
     = \<lparr>sel_cart = [(newLine p1)\<lparr>quantity := 2\<rparr>, newLine p2],
        addedProducts = [name p1, name p2, name p1], notFoundProducts = []\<rparr>"
proof -
  have "parseIntVal (prod_id p1) \<noteq> parseIntVal (prod_id p2)"
    using resolve_id [OF p1] resolve_id [OF p2] by simp
  then have ne: "prod_id p1 \<noteq> prod_id p2" by auto
  show ?thesis
    using p1 p2 ne
    by (simp add: selectAll_def selectProduct_def resolve_def newLine_def increment_exact)
qed

text \<open>
  C3. The message \<open>1,2,1\<close>, with a catalog in which 1 and 2 resolve to the products
  \<open>p1\<close> and \<open>p2\<close> and with an empty cart: the cart becomes exactly the line of \<open>p1\<close>
  with quantity 2 followed by the line of \<open>p2\<close> with quantity 1; the list of added
  products in the reply has the name of \<open>p1\<close> twice, once per token, and the cart
  rendered in the same reply has one entry for \<open>p1\<close>, with quantity 2, and one for \<open>p2\<close>.
\<close>

theorem selection_1_2_1:
  assumes m: "normalizeBody (Body e) = Inr ''1,2,1''"
    and st: "userStates w (From e) \<noteq> Some DELIVERY_INFO" "userStates w (From e) \<noteq> Some PAYMENT_METHOD"
    and img: "\<not> (imageAttached e \<and> userStates w (From e) = Some PAYMENT_CONFIRMATION)"
    and cart: "userCarts w (From e) = None \<or> userCarts w (From e) = Some []"
    and p1: "resolve (getMenu A (menuResponse E)) (Finite 1) = Some p1"
    and p2: "resolve (getMenu A (menuResponse E)) (Finite 2) = Some p2"
  shows "webhook A E e w
     = Inr (w\<lparr>sheetCalls := sheetCalls w @ [ValuesGet ''Menu!A:F''],
              userCarts := (userCarts w)(From e \<mapsto> [(newLine p1)\<lparr>quantity := 2\<rparr>, newLine p2]),
              outbox := outbox w @
                [(From e, ProductsReply [name p1, name p2, name p1] []
                    \<lparr>emptyNotice = False,
                      entries = [(1, name p1, 2, price p1, times A (price p1) 2),
                                 (2, name p2, 1, price p2, times A (price p2) 1)],
                      total = plus A (plus A (zero A) (times A (price p1) 2)) (times A (price p2) 1),
                      options = Some True\<rparr>)],
              userStates := (userStates w)(From e \<mapsto> BROWSING_PRODUCTS)\<rparr>)"
proof -
  have c: "(case userCarts w (From e) of None \<Rightarrow> [] | Some c \<Rightarrow> c) = []"
    using cart by auto
  have f: "formatCart A [(newLine p1)\<lparr>quantity := 2\<rparr>, newLine p2] True
     = \<lparr>emptyNotice = False,
        entries = [(1, name p1, 2, price p1, times A (price p1) 2),
                   (2, name p2, 1, price p2, times A (price p2) 1)],
        total = plus A (plus A (zero A) (times A (price p1) 2)) (times A (price p2) 1),
        options = Some True\<rparr>"
    by (simp add: formatCart_def cartTotal_def newLine_def upt_rec)
  show ?thesis
    by (simp add: webhook_dispatch [OF m] dispatch_selection [OF selectionPattern_1_2_1 st img] c
          productSelection_def Let_def productIds_1_2_1 selectAll_1_2_1 [OF p1 p2] f
          called_def setCart_def sendMessage_def setState_def)
qed

theorem selection_1_2_1_witness:
  "webhook wholeOps sampleEnv (textEvent ''1,2,1'') (session MAIN_MENU [] [])
     = Inr ((session MAIN_MENU [] [])
             \<lparr>sheetCalls := [ValuesGet ''Menu!A:F''],
              userCarts := [customer \<mapsto> [(newLine pizza)\<lparr>quantity := 2\<rparr>, newLine empanada]],
              outbox :=
                [(customer, ProductsReply [Some ''Pizza'', Some ''Empanada'', Some ''Pizza''] []
                    \<lparr>emptyNotice = False,
                      entries = [(1, Some ''Pizza'', 2, 1500, 3000), (2, Some ''Empanada'', 1, 300, 300)],
                      total = 3300, options = Some True\<rparr>)],
              userStates := [customer \<mapsto> BROWSING_PRODUCTS]\<rparr>)"
proof -
  have m: "normalizeBody (Body (textEvent ''1,2,1'')) = Inr ''1,2,1''"
    by (simp add: textEvent_def normalizeBody_1_2_1)
  have st: "userStates (session MAIN_MENU [] []) (From (textEvent ''1,2,1'')) \<noteq> Some DELIVERY_INFO"
    "userStates (session MAIN_MENU [] []) (From (textEvent ''1,2,1'')) \<noteq> Some PAYMENT_METHOD"
    by (simp_all add: textEvent_def session_def)
  have img: "\<not> (imageAttached (textEvent ''1,2,1'')
      \<and> userStates (session MAIN_MENU [] []) (From (textEvent ''1,2,1'')) = Some PAYMENT_CONFIRMATION)"
    by (simp add: textEvent_def imageAttached_def)
  have cart: "userCarts (session MAIN_MENU [] []) (From (textEvent ''1,2,1'')) = None
      \<or> userCarts (session MAIN_MENU [] []) (From (textEvent ''1,2,1'')) = Some []"
    by (simp add: textEvent_def session_def)
  show ?thesis
    using selection_1_2_1 [OF m st img cart resolve_sample]
    by (simp add: textEvent_def session_def pizza_def empanada_def wholeOps_def)
qed

end
